theory Spec2Isabelle
  imports Main
begin

section \<open>Safety equipment tracker: the entity store and its request handlers\<close>

text \<open>
  A shallow embedding of \<^verbatim>\<open>final.py\<close>. The three SQLAlchemy models are records, a table
  is the list of its rows in insertion order, and a request handler is a function from
  the store to a result and the store after the request: a handler that aborts (404, 400,
  an uncaught Python exception) returns \<open>Inl\<close> and the store it was given, since nothing
  was committed.

  The store is the one the source configures by default, SQLite
  (\<^verbatim>\<open>sqlite:///safety_v2.db\<close>): a new row gets the largest id of its table plus one, and
  foreign keys are declared but not enforced (the source never turns the pragma on), so a
  commit does not check that a referenced row exists.
\<close>

subsection \<open>Dates and times\<close>

text \<open>
  A \<^verbatim>\<open>datetime.date\<close> is its proleptic Gregorian ordinal (\<^verbatim>\<open>date.toordinal()\<close>), between
  1 (\<^verbatim>\<open>date.min\<close>) and 3652059 (\<^verbatim>\<open>date.max\<close>). \<^verbatim>\<open>timedelta(days=n)\<close> raises
  OverflowError beyond 999999999 days in magnitude, and adding a timedelta to a date
  raises OverflowError when the sum is not a date. A \<^verbatim>\<open>datetime\<close> is an opaque
  timestamp.
\<close>

type_synonym date = int
type_synonym datetime = int

datatype error = NotFound | BadRequest | KeyError | ValueError | OverflowError

definition MINORDINAL :: int where
  "MINORDINAL = 1"

definition MAXORDINAL :: int where
  "MAXORDINAL = 3652059"

definition timedelta :: "int \<Rightarrow> error + int" where
  "timedelta days = (if \<bar>days\<bar> > 999999999 then Inl OverflowError else Inr days)"

definition date_add :: "date \<Rightarrow> int \<Rightarrow> error + date" where
  "date_add d td =
     (if MINORDINAL \<le> d + td \<and> d + td \<le> MAXORDINAL then Inr (d + td) else Inl OverflowError)"

subsection \<open>Strings\<close>

text \<open>
  A Python \<^verbatim>\<open>str\<close> is the list of its code points. \<^verbatim>\<open>str.strip()\<close> removes the
  leading and trailing characters for which \<^verbatim>\<open>str.isspace()\<close> holds.
\<close>

type_synonym str = "nat list"

definition isspace :: "nat \<Rightarrow> bool" where
  "isspace c =
     ((9 \<le> c \<and> c \<le> 13) \<or> (28 \<le> c \<and> c \<le> 32) \<or> c = 133 \<or> c = 160 \<or> c = 5760 \<or>
      (8192 \<le> c \<and> c \<le> 8202) \<or> c = 8232 \<or> c = 8233 \<or> c = 8239 \<or> c = 8287 \<or>
      c = 12288)"

definition strip :: "str \<Rightarrow> str" where
  "strip s = rev (dropWhile isspace (rev (dropWhile isspace s)))"

text \<open>An ASCII literal of the source as a \<open>str\<close>.\<close>

definition lit :: "string \<Rightarrow> str" where
  "lit s = map of_char s"

text \<open>\<^verbatim>\<open>request.form.get(k) or ""\<close>: a missing field reads as the empty string.\<close>

definition or_empty :: "str option \<Rightarrow> str" where
  "or_empty v = (case v of None \<Rightarrow> [] | Some s \<Rightarrow> s)"

subsection \<open>Models\<close>

record employee =
  emp_id :: int
  employee_code :: str
  emp_name :: str

record equipment =
  eq_id :: int
  eq_name :: str
  expiry_date :: date
  employee_id :: "int option"
  is_retired :: bool
  retired_on :: "datetime option"

record issue =
  issue_id :: int
  equipment_id :: int
  description :: str
  raised_on :: "datetime option"
  raised_by_employee_id :: "int option"
  is_resolved :: bool
  resolved_on :: "datetime option"

record db =
  employee_rows :: "employee list"
  equipment_rows :: "equipment list"
  issue_rows :: "issue list"

text \<open>\<^verbatim>\<open>db.create_all()\<close> on a fresh store.\<close>

definition empty_db :: db where
  "empty_db = \<lparr>employee_rows = [], equipment_rows = [], issue_rows = []\<rparr>"

subsection \<open>Queries and writes\<close>

text \<open>\<^verbatim>\<open>Model.query.get(k)\<close>: the row with primary key \<open>k\<close>.\<close>

definition get :: "('a \<Rightarrow> int) \<Rightarrow> 'a list \<Rightarrow> int \<Rightarrow> 'a option" where
  "get pk rows k = find (\<lambda>r. pk r = k) rows"

definition get_or_404 :: "('a \<Rightarrow> int) \<Rightarrow> 'a list \<Rightarrow> int \<Rightarrow> error + 'a" where
  "get_or_404 pk rows k = (case get pk rows k of None \<Rightarrow> Inl NotFound | Some r \<Rightarrow> Inr r)"

text \<open>The id an insert assigns: one more than the largest in the table, 1 in an empty one.\<close>

definition next_id :: "('a \<Rightarrow> int) \<Rightarrow> 'a list \<Rightarrow> int" where
  "next_id pk rows = foldr max (map pk rows) 0 + 1"

text \<open>
  The flush of a changed object: \<^verbatim>\<open>UPDATE ... WHERE id = ?\<close> writes the object's
  columns to the row with its primary key.
\<close>

definition update_row :: "('a \<Rightarrow> int) \<Rightarrow> 'a \<Rightarrow> 'a list \<Rightarrow> 'a list" where
  "update_row pk r rows = map (\<lambda>x. if pk x = pk r then r else x) rows"

definition update_opt :: "('a \<Rightarrow> int) \<Rightarrow> 'a option \<Rightarrow> 'a list \<Rightarrow> 'a list" where
  "update_opt pk r rows = (case r of None \<Rightarrow> rows | Some x \<Rightarrow> update_row pk x rows)"

definition delete_row :: "('a \<Rightarrow> int) \<Rightarrow> int \<Rightarrow> 'a list \<Rightarrow> 'a list" where
  "delete_row pk k rows = filter (\<lambda>x. pk x \<noteq> k) rows"

subsection \<open>Requests, sessions and responses\<close>

datatype http_method = GET | POST

text \<open>
  The two session keys the guards read. \<^verbatim>\<open>session.get("employee_id")\<close> is tested
  for truth, so an id of 0 counts as absent.
\<close>

record session =
  session_employee_id :: "int option"
  is_admin :: bool

definition logged_in :: "session \<Rightarrow> bool" where
  "logged_in sess = (case session_employee_id sess of None \<Rightarrow> False | Some k \<Rightarrow> k \<noteq> 0)"

text \<open>
  What a request reads from outside the store: the configured threshold, the clock
  (\<open>utcnow n\<close> is the \<open>n\<close>-th reading of \<^verbatim>\<open>datetime.utcnow()\<close> during the request) and the
  two library parsers the handlers call, \<^verbatim>\<open>datetime.strptime(s, "%Y-%m-%d").date()\<close> and
  \<^verbatim>\<open>int(s)\<close>, where \<open>None\<close> is their ValueError.
\<close>

record env =
  NEAR_EXPIRY_DAYS :: int
  today :: date
  utcnow :: "nat \<Rightarrow> datetime"
  strptime :: "str \<Rightarrow> date option"
  int_of_str :: "str \<Rightarrow> int option"

text \<open>
  A dashboard page is what the template is given and the status column it derives; the
  other pages carry no data of interest and are named by their heading.
\<close>

datatype page =
    Form string
  | My_dashboard_page "(equipment \<times> string) list" "equipment list" date
  | Admin_dashboard_page "(equipment \<times> string) list" nat nat nat "equipment list" date

text \<open>A redirect names its endpoint and carries the message flashed before it.\<close>

datatype response = Redirect string "string option" | Render page

type_synonym result = "error + response"

subsection \<open>Guards\<close>

definition login_required :: "(db \<Rightarrow> result \<times> db) \<Rightarrow> session \<Rightarrow> db \<Rightarrow> result \<times> db" where
  "login_required f sess d =
     (if \<not> logged_in sess
      then (Inr (Redirect ''login'' (Some ''Please log in with your Employee ID.'')), d)
      else f d)"

definition admin_required :: "(db \<Rightarrow> result \<times> db) \<Rightarrow> session \<Rightarrow> db \<Rightarrow> result \<times> db" where
  "admin_required f sess d =
     (if \<not> is_admin sess
      then (Inr (Redirect ''admin_login'' (Some ''Admin access required.'')), d)
      else f d)"

subsection \<open>Employees\<close>

definition add_employee ::
  "session \<Rightarrow> http_method \<Rightarrow> str option \<Rightarrow> str option \<Rightarrow> db \<Rightarrow> result \<times> db" where
  "add_employee sess m name_field code_field =
     admin_required (\<lambda>d.
       if m = POST then
         let name = strip (or_empty name_field);
             code = strip (or_empty code_field)
         in if name = [] \<or> code = []
            then (Inr (Redirect ''add_employee'' (Some ''Name and Employee ID are required.'')), d)
            else if find (\<lambda>e. employee_code e = code) (employee_rows d) \<noteq> None
            then (Inr (Redirect ''add_employee''
                        (Some ''Employee ID already exists. Choose another.'')), d)
            else (Inr (Redirect ''list_employees'' (Some ''Employee added.'')),
                  d\<lparr>employee_rows := employee_rows d @
                      [\<lparr>emp_id = next_id emp_id (employee_rows d),
                        employee_code = code, emp_name = name\<rparr>]\<rparr>)
       else (Inr (Render (Form ''Add Employee'')), d)) sess"

text \<open>
  The loop clears \<open>employee_id\<close> on \<^verbatim>\<open>emp.equipments\<close>, the equipment rows that
  reference the employee. Deleting the object then makes the ORM clear the foreign key of
  the rows of both of its relationships (\<^verbatim>\<open>equipments\<close> and \<^verbatim>\<open>issues\<close>, neither with a
  delete cascade) before it deletes the employee row.
\<close>

definition remove_employee :: "session \<Rightarrow> int \<Rightarrow> db \<Rightarrow> result \<times> db" where
  "remove_employee sess k =
     admin_required (\<lambda>d.
       case get_or_404 emp_id (employee_rows d) k of
         Inl err \<Rightarrow> (Inl err, d)
       | Inr emp \<Rightarrow>
           (Inr (Redirect ''list_employees''
                  (Some ''Employee removed. Any assigned equipment was unassigned.'')),
            d\<lparr>employee_rows := delete_row emp_id (emp_id emp) (employee_rows d),
              equipment_rows :=
                map (\<lambda>eq. if employee_id eq = Some (emp_id emp)
                           then eq\<lparr>employee_id := None\<rparr> else eq) (equipment_rows d),
              issue_rows :=
                map (\<lambda>i. if raised_by_employee_id i = Some (emp_id emp)
                          then i\<lparr>raised_by_employee_id := None\<rparr> else i) (issue_rows d)\<rparr>)) sess"

subsection \<open>Equipment\<close>

definition add_equipment ::
  "env \<Rightarrow> session \<Rightarrow> http_method \<Rightarrow> str option \<Rightarrow> str option \<Rightarrow> db \<Rightarrow> result \<times> db" where
  "add_equipment env sess m name_field expiry_raw =
     admin_required (\<lambda>d.
       if m = POST then
         let name = strip (or_empty name_field)
         in if name = [] \<or> or_empty expiry_raw = []
            then (Inr (Redirect ''add_equipment'' (Some ''All fields are required.'')), d)
            else (case strptime env (or_empty expiry_raw) of
                    None \<Rightarrow> (Inl ValueError, d)
                  | Some expiry \<Rightarrow>
                      (Inr (Redirect ''list_equipment'' (Some ''Equipment added.'')),
                       d\<lparr>equipment_rows := equipment_rows d @
                           [\<lparr>eq_id = next_id eq_id (equipment_rows d), eq_name = name,
                             expiry_date = expiry, employee_id = None,
                             is_retired = False, retired_on = None\<rparr>]\<rparr>))
       else (Inr (Render (Form ''Add Equipment'')), d)) sess"

text \<open>
  \<^verbatim>\<open>int(request.form["employee_id"])\<close>: a missing field is a 400, a field that is not an
  integer a ValueError. The id read is written to the row as it is.
\<close>

definition assign_equipment ::
  "env \<Rightarrow> session \<Rightarrow> int \<Rightarrow> http_method \<Rightarrow> str option \<Rightarrow> db \<Rightarrow> result \<times> db" where
  "assign_equipment env sess k m employee_id_field =
     admin_required (\<lambda>d.
       case get_or_404 eq_id (equipment_rows d) k of
         Inl err \<Rightarrow> (Inl err, d)
       | Inr eq \<Rightarrow>
           if is_retired eq
           then (Inr (Redirect ''list_equipment''
                       (Some ''This equipment is retired and cannot be assigned.'')), d)
           else if m = POST then
             (case employee_id_field of
                None \<Rightarrow> (Inl BadRequest, d)
              | Some raw \<Rightarrow>
                  (case int_of_str env raw of
                     None \<Rightarrow> (Inl ValueError, d)
                   | Some emp_id' \<Rightarrow>
                       (Inr (Redirect ''list_equipment'' (Some ''Assigned equipment.'')),
                        d\<lparr>equipment_rows :=
                            update_row eq_id (eq\<lparr>employee_id := Some emp_id'\<rparr>)
                              (equipment_rows d)\<rparr>)))
           else (Inr (Render (Form ''Assign Equipment'')), d)) sess"

subsection \<open>Issues\<close>

definition raise_issue ::
  "env \<Rightarrow> session \<Rightarrow> int \<Rightarrow> http_method \<Rightarrow> str option \<Rightarrow> db \<Rightarrow> result \<times> db" where
  "raise_issue env sess k m description_field d =
     (case get_or_404 eq_id (equipment_rows d) k of
        Inl err \<Rightarrow> (Inl err, d)
      | Inr eq \<Rightarrow>
          if is_retired eq
          then (Inr (Redirect ''root''
                      (Some ''This equipment is retired. You cannot raise a new issue.'')), d)
          else if m = POST then
            let desc = strip (or_empty description_field)
            in if desc = []
               then (Inr (Redirect ''raise_issue'' (Some ''Description is required.'')), d)
               else (Inr (Redirect (if is_admin sess then ''admin_dashboard''
                                    else if logged_in sess then ''my_dashboard'' else ''root'')
                           (Some ''Issue raised.'')),
                     d\<lparr>issue_rows := issue_rows d @
                         [\<lparr>issue_id = next_id issue_id (issue_rows d),
                           equipment_id = eq_id eq, description = desc,
                           raised_on = Some (utcnow env 0),
                           raised_by_employee_id =
                             (if logged_in sess then session_employee_id sess else None),
                           is_resolved = False, resolved_on = None\<rparr>]\<rparr>)
          else (Inr (Render (Form ''Raise Issue'')), d))"

text \<open>
  The toggle. \<open>eq\<close> is \<^verbatim>\<open>issue.equipment\<close>, the row the issue references, or \<open>None\<close>.
  The two \<^verbatim>\<open>if\<close> blocks run in the source's order on the toggled issue; the commit
  writes the issue and, when there is one, the equipment row.
\<close>

definition resolve_issue :: "env \<Rightarrow> session \<Rightarrow> int \<Rightarrow> db \<Rightarrow> result \<times> db" where
  "resolve_issue env sess k =
     admin_required (\<lambda>d.
       case get_or_404 issue_id (issue_rows d) k of
         Inl err \<Rightarrow> (Inl err, d)
       | Inr issue0 \<Rightarrow>
           let eq0 = get eq_id (equipment_rows d) (equipment_id issue0);
               issue1 = issue0\<lparr>is_resolved := \<not> is_resolved issue0\<rparr>;
               issue2 = issue1\<lparr>resolved_on :=
                          (if is_resolved issue1 then Some (utcnow env 0) else None)\<rparr>;
               eq1 = (if is_resolved issue2
                      then map_option (\<lambda>eq. eq\<lparr>employee_id := None, is_retired := True,
                                               retired_on := Some (utcnow env 1)\<rparr>) eq0
                      else eq0);
               eq2 = (if \<not> is_resolved issue2
                      then map_option (\<lambda>eq. eq\<lparr>is_retired := False, retired_on := None\<rparr>) eq1
                      else eq1)
           in (Inr (Redirect ''list_issues''
                     (Some (if is_resolved issue2
                            then ''Issue marked as resolved. Equipment unassigned and retired.''
                            else ''Issue re-opened. Equipment reactivated.''))),
               d\<lparr>issue_rows := update_row issue_id issue2 (issue_rows d),
                 equipment_rows := update_opt eq_id eq2 (equipment_rows d)\<rparr>)) sess"

definition delete_issue :: "session \<Rightarrow> int \<Rightarrow> db \<Rightarrow> result \<times> db" where
  "delete_issue sess k =
     admin_required (\<lambda>d.
       case get_or_404 issue_id (issue_rows d) k of
         Inl err \<Rightarrow> (Inl err, d)
       | Inr issue0 \<Rightarrow>
           (Inr (Redirect ''list_issues'' (Some ''Issue deleted.'')),
            d\<lparr>issue_rows := delete_row issue_id (issue_id issue0) (issue_rows d)\<rparr>)) sess"

subsection \<open>Dashboards\<close>

text \<open>
  \<^verbatim>\<open>near_cutoff = date.today() + timedelta(days=NEAR_EXPIRY_DAYS)\<close>, and the status the
  dashboard templates derive for each listed row: \<^verbatim>\<open>"ok"\<close>, overwritten by \<^verbatim>\<open>"near"\<close>
  when \<^verbatim>\<open>eq.expiry_date <= near_cutoff\<close>.
\<close>

definition near_cutoff :: "env \<Rightarrow> error + date" where
  "near_cutoff env =
     (case timedelta (NEAR_EXPIRY_DAYS env) of
        Inl err \<Rightarrow> Inl err
      | Inr td \<Rightarrow> date_add (today env) td)"

definition status :: "date \<Rightarrow> equipment \<Rightarrow> string" where
  "status cutoff eq = (if expiry_date eq \<le> cutoff then ''near'' else ''ok'')"

definition near :: "date \<Rightarrow> equipment list \<Rightarrow> equipment list" where
  "near cutoff listed = filter (\<lambda>e. expiry_date e \<le> cutoff) listed"

definition my_dashboard :: "env \<Rightarrow> session \<Rightarrow> db \<Rightarrow> result \<times> db" where
  "my_dashboard env sess =
     login_required (\<lambda>d.
       case session_employee_id sess of
         None \<Rightarrow> (Inl KeyError, d)
       | Some k \<Rightarrow>
           (case get_or_404 emp_id (employee_rows d) k of
              Inl err \<Rightarrow> (Inl err, d)
            | Inr emp \<Rightarrow>
                let mine = sort_key expiry_date
                             (filter (\<lambda>e. employee_id e = Some (emp_id emp) \<and> \<not> is_retired e)
                                (equipment_rows d))
                in (case near_cutoff env of
                      Inl err \<Rightarrow> (Inl err, d)
                    | Inr cutoff \<Rightarrow>
                        (Inr (Render (My_dashboard_page
                                (map (\<lambda>e. (e, status cutoff e)) mine)
                                (near cutoff mine) cutoff)), d)))) sess"

definition admin_dashboard :: "env \<Rightarrow> session \<Rightarrow> db \<Rightarrow> result \<times> db" where
  "admin_dashboard env sess =
     admin_required (\<lambda>d.
       let equipment = sort_key expiry_date (filter (\<lambda>e. \<not> is_retired e) (equipment_rows d))
       in (case near_cutoff env of
             Inl err \<Rightarrow> (Inl err, d)
           | Inr cutoff \<Rightarrow>
               (Inr (Render (Admin_dashboard_page
                       (map (\<lambda>e. (e, status cutoff e)) equipment)
                       (length (employee_rows d))
                       (length equipment)
                       (length (filter (\<lambda>i. \<not> is_resolved i) (issue_rows d)))
                       (near cutoff equipment) cutoff)), d))) sess"

subsection \<open>Seeding at start\<close>

text \<open>
  \<^verbatim>\<open>seed_if_empty\<close> adds three employees to an empty employee table and three pieces of
  equipment to an empty equipment table, and commits once at the end: an OverflowError
  in an expiry date leaves the store as it was.
\<close>

definition insert_employee :: "str \<Rightarrow> str \<Rightarrow> employee list \<Rightarrow> employee list" where
  "insert_employee name code rows =
     rows @ [\<lparr>emp_id = next_id emp_id rows, employee_code = code, emp_name = name\<rparr>]"

definition insert_equipment :: "str \<Rightarrow> date \<Rightarrow> equipment list \<Rightarrow> equipment list" where
  "insert_equipment name expiry rows =
     rows @ [\<lparr>eq_id = next_id eq_id rows, eq_name = name, expiry_date = expiry,
              employee_id = None, is_retired = False, retired_on = None\<rparr>]"

definition seed_if_empty :: "date \<Rightarrow> db \<Rightarrow> error + db" where
  "seed_if_empty today' d =
     (let d1 = (if employee_rows d = []
                then d\<lparr>employee_rows :=
                        insert_employee (lit ''Koustav Patowary'') (lit ''E1003'')
                          (insert_employee (lit ''Harsha Das'') (lit ''E1002'')
                            (insert_employee (lit ''Chinmoy Das'') (lit ''E1001'')
                              (employee_rows d)))\<rparr>
                else d)
      in if equipment_rows d = []
         then (case date_add today' 10 of
                 Inl err \<Rightarrow> Inl err
               | Inr e1 \<Rightarrow>
                   (case date_add today' 3 of
                      Inl err \<Rightarrow> Inl err
                    | Inr e2 \<Rightarrow>
                        (case date_add today' 90 of
                           Inl err \<Rightarrow> Inl err
                         | Inr e3 \<Rightarrow>
                             Inr (d1\<lparr>equipment_rows :=
                                   insert_equipment (lit ''Safety Harness'') e3
                                     (insert_equipment
                                        (lit ''Fire Extinguisher CO'' @ [8322]) e2
                                        (insert_equipment (lit ''Safety Helmet'') e1
                                           (equipment_rows d1)))\<rparr>))))
         else Inr d1)"

subsection \<open>The routes that touch the store\<close>

text \<open>
  Every route that writes to the store, and the two dashboards. The routes left out
  (login, logout, the admin login and the three listings) write nothing to it.
\<close>

datatype request =
    Add_employee http_method "str option" "str option"
  | Remove_employee int
  | Add_equipment http_method "str option" "str option"
  | Assign_equipment int http_method "str option"
  | Raise_issue int http_method "str option"
  | Resolve_issue int
  | Delete_issue int
  | My_dashboard
  | Admin_dashboard

fun handle :: "env \<Rightarrow> session \<Rightarrow> request \<Rightarrow> db \<Rightarrow> result \<times> db" where
  "handle env sess (Add_employee m name_field code_field) d =
     add_employee sess m name_field code_field d"
| "handle env sess (Remove_employee k) d = remove_employee sess k d"
| "handle env sess (Add_equipment m name_field expiry_raw) d =
     add_equipment env sess m name_field expiry_raw d"
| "handle env sess (Assign_equipment k m employee_id_field) d =
     assign_equipment env sess k m employee_id_field d"
| "handle env sess (Raise_issue k m description_field) d =
     raise_issue env sess k m description_field d"
| "handle env sess (Resolve_issue k) d = resolve_issue env sess k d"
| "handle env sess (Delete_issue k) d = delete_issue sess k d"
| "handle env sess My_dashboard d = my_dashboard env sess d"
| "handle env sess Admin_dashboard d = admin_dashboard env sess d"

subsection \<open>Invariants of the equipment table\<close>

text \<open>\<open>is_retired\<close> holds exactly when \<open>retired_on\<close> is set.\<close>

definition retired_iff_stamped :: "db \<Rightarrow> bool" where
  "retired_iff_stamped d = list_all (\<lambda>e. is_retired e = (retired_on e \<noteq> None)) (equipment_rows d)"

text \<open>A retired row references no employee.\<close>

definition retired_unassigned :: "db \<Rightarrow> bool" where
  "retired_unassigned d =
     list_all (\<lambda>e. if is_retired e then employee_id e = None else True) (equipment_rows d)"

section \<open>An example store\<close>

text \<open>
  The store of the specification's scenario: employee E1001 holds a helmet and has raised
  one open issue against it. The theorems below are instantiated at it.
\<close>

definition demo_env :: env where
  "demo_env =
     \<lparr>NEAR_EXPIRY_DAYS = 30, today = 739000, utcnow = (\<lambda>n. 1000 + int n),
      strptime = (\<lambda>s. if s = lit ''2024-05-01'' then Some 739007 else None),
      int_of_str = (\<lambda>s. if s = lit ''1'' then Some 1
                         else if s = lit ''999'' then Some 999 else None)\<rparr>"

definition admin_sess :: session where
  "admin_sess = \<lparr>session_employee_id = None, is_admin = True\<rparr>"

definition chinmoy :: employee where
  "chinmoy = \<lparr>emp_id = 1, employee_code = lit ''E1001'', emp_name = lit ''Chinmoy Das''\<rparr>"

definition helmet :: equipment where
  "helmet = \<lparr>eq_id = 1, eq_name = lit ''Helmet'', expiry_date = 739010,
             employee_id = Some 1, is_retired = False, retired_on = None\<rparr>"

definition strap_broken :: issue where
  "strap_broken = \<lparr>issue_id = 1, equipment_id = 1, description = lit ''strap broken'',
                   raised_on = Some 900, raised_by_employee_id = Some 1,
                   is_resolved = False, resolved_on = None\<rparr>"

definition demo_db :: db where
  "demo_db = \<lparr>employee_rows = [chinmoy], equipment_rows = [helmet],
              issue_rows = [strap_broken]\<rparr>"

text \<open>
  The same store later: both issues raised against the helmet are resolved, the helmet is
  retired, and its expiry date has passed.
\<close>

definition retired_helmet :: equipment where
  "retired_helmet = \<lparr>eq_id = 1, eq_name = lit ''Helmet'', expiry_date = 738000,
             employee_id = None, is_retired = True, retired_on = Some 950\<rparr>"

definition solved_strap :: issue where
  "solved_strap = \<lparr>issue_id = 1, equipment_id = 1, description = lit ''strap broken'',
                   raised_on = Some 900, raised_by_employee_id = Some 1,
                   is_resolved = True, resolved_on = Some 949\<rparr>"

definition solved_crack :: issue where
  "solved_crack = \<lparr>issue_id = 2, equipment_id = 1, description = lit ''shell cracked'',
                   raised_on = Some 901, raised_by_employee_id = None,
                   is_resolved = True, resolved_on = Some 950\<rparr>"

definition retired_db :: db where
  "retired_db = \<lparr>employee_rows = [chinmoy], equipment_rows = [retired_helmet],
              issue_rows = [solved_strap, solved_crack]\<rparr>"

text \<open>
  A store with stock: an extinguisher and a second helmet held by E1001, a harness nobody
  holds and the retired helmet. The harness expires on the near-expiry cutoff of
  \<open>demo_env\<close>, the extinguisher a day later.
\<close>

definition harness :: equipment where
  "harness = \<lparr>eq_id = 2, eq_name = lit ''Safety Harness'', expiry_date = 739030,
              employee_id = None, is_retired = False, retired_on = None\<rparr>"

definition extinguisher :: equipment where
  "extinguisher = \<lparr>eq_id = 3, eq_name = lit ''Fire Extinguisher'', expiry_date = 739031,
              employee_id = Some 1, is_retired = False, retired_on = None\<rparr>"

definition stock_db :: db where
  "stock_db = \<lparr>employee_rows = [chinmoy],
               equipment_rows = [extinguisher, retired_helmet, harness, helmet\<lparr>eq_id := 4\<rparr>],
               issue_rows = []\<rparr>"

definition chinmoy_sess :: session where
  "chinmoy_sess = \<lparr>session_employee_id = Some 1, is_admin = False\<rparr>"

section \<open>Properties\<close>

subsection \<open>Reading a table after a write\<close>

lemma get_SomeD: "get pk rows k = Some r \<Longrightarrow> pk r = k \<and> r \<in> set rows"
  unfolding get_def by (induction rows) (auto split: if_splits)

lemma get_update_row_same:
  "get pk rows k = Some r \<Longrightarrow> pk r' = k \<Longrightarrow> get pk (update_row pk r' rows) k = Some r'"
  unfolding get_def update_row_def by (induction rows) (auto split: if_splits)

lemma get_update_row_other:
  "pk r' \<noteq> k \<Longrightarrow> get pk (update_row pk r' rows) k = get pk rows k"
  unfolding get_def update_row_def by (induction rows) auto

lemma get_delete_row_same: "get pk (delete_row pk k rows) k = None"
  unfolding get_def delete_row_def by (induction rows) auto

subsection \<open>The resolve toggle\<close>

text \<open>
  C1. Resolving an open issue (by an admin, the route's guard) marks it resolved with
  \<open>resolved_on\<close> the clock's first reading, and leaves the equipment row it references
  retired, stamped with the clock's second reading and unassigned, whatever the row's
  assignment was before.
\<close>

theorem resolve_open_issue:
  assumes "is_admin sess"
    and "get issue_id (issue_rows d) k = Some i"
    and "\<not> is_resolved i"
    and "get eq_id (equipment_rows d) (equipment_id i) = Some x"
  shows "get issue_id (issue_rows (snd (resolve_issue env sess k d))) k
           = Some (i\<lparr>is_resolved := True, resolved_on := Some (utcnow env 0)\<rparr>)
       \<and> get eq_id (equipment_rows (snd (resolve_issue env sess k d))) (equipment_id i)
           = Some (x\<lparr>employee_id := None, is_retired := True,
                     retired_on := Some (utcnow env 1)\<rparr>)"
proof -
  from assms(2) have ki: "issue_id i = k" by (simp add: get_SomeD)
  from assms(4) have kx: "eq_id x = equipment_id i" by (simp add: get_SomeD)
  show ?thesis
    using assms ki kx
    by (simp add: resolve_issue_def admin_required_def get_or_404_def update_opt_def
        get_update_row_same)
qed

theorem resolve_open_issue_witness:
  "get issue_id (issue_rows (snd (resolve_issue demo_env admin_sess 1 demo_db))) 1
     = Some (strap_broken\<lparr>is_resolved := True, resolved_on := Some 1000\<rparr>)
   \<and> get eq_id (equipment_rows (snd (resolve_issue demo_env admin_sess 1 demo_db))) 1
     = Some (helmet\<lparr>employee_id := None, is_retired := True, retired_on := Some 1001\<rparr>)"
  using resolve_open_issue [of admin_sess demo_db 1 strap_broken helmet demo_env]
  by (simp add: admin_sess_def demo_db_def strap_broken_def helmet_def demo_env_def get_def)

text \<open>
  C2. Toggling a resolved issue reopens it: \<open>resolved_on\<close> is cleared and the equipment
  row it references becomes active again with \<open>retired_on\<close> cleared. Nothing else is
  consulted: the statement holds for every store, whatever the other issues against the
  row and whatever its expiry date.
\<close>

theorem reopen_resolved_issue:
  assumes "is_admin sess"
    and "get issue_id (issue_rows d) k = Some i"
    and "is_resolved i"
    and "get eq_id (equipment_rows d) (equipment_id i) = Some x"
  shows "get issue_id (issue_rows (snd (resolve_issue env sess k d))) k
           = Some (i\<lparr>is_resolved := False, resolved_on := None\<rparr>)
       \<and> get eq_id (equipment_rows (snd (resolve_issue env sess k d))) (equipment_id i)
           = Some (x\<lparr>is_retired := False, retired_on := None\<rparr>)"
proof -
  from assms(2) have ki: "issue_id i = k" by (simp add: get_SomeD)
  from assms(4) have kx: "eq_id x = equipment_id i" by (simp add: get_SomeD)
  show ?thesis
    using assms ki kx
    by (simp add: resolve_issue_def admin_required_def get_or_404_def update_opt_def
        get_update_row_same)
qed

theorem reopen_resolved_issue_witness:
  "get issue_id (issue_rows (snd (resolve_issue demo_env admin_sess 1 retired_db))) 1
     = Some (solved_strap\<lparr>is_resolved := False, resolved_on := None\<rparr>)
   \<and> get eq_id (equipment_rows (snd (resolve_issue demo_env admin_sess 1 retired_db))) 1
     = Some (retired_helmet\<lparr>is_retired := False, retired_on := None\<rparr>)
   \<and> get issue_id (issue_rows (snd (resolve_issue demo_env admin_sess 1 retired_db))) 2
     = Some solved_crack
   \<and> expiry_date retired_helmet < today demo_env"
  using reopen_resolved_issue [of admin_sess retired_db 1 solved_strap retired_helmet demo_env]
  by (simp add: admin_sess_def retired_db_def solved_strap_def solved_crack_def
      retired_helmet_def demo_env_def get_def resolve_issue_def admin_required_def
      get_or_404_def update_row_def update_opt_def)

subsection \<open>Deleting an issue\<close>

text \<open>
  C4. Deleting an issue (by an admin) removes its row, whether it is open or resolved, and
  leaves the equipment table as it was: a retirement the issue once caused stays.
\<close>

theorem delete_issue_keeps_equipment:
  assumes "is_admin sess"
    and "get issue_id (issue_rows d) k = Some i"
  shows "fst (delete_issue sess k d) = Inr (Redirect ''list_issues'' (Some ''Issue deleted.''))
       \<and> issue_rows (snd (delete_issue sess k d)) = filter (\<lambda>j. issue_id j \<noteq> k) (issue_rows d)
       \<and> get issue_id (issue_rows (snd (delete_issue sess k d))) k = None
       \<and> equipment_rows (snd (delete_issue sess k d)) = equipment_rows d
       \<and> employee_rows (snd (delete_issue sess k d)) = employee_rows d"
proof -
  from assms(2) have ki: "issue_id i = k" by (simp add: get_SomeD)
  have "get issue_id (filter (\<lambda>j. issue_id j \<noteq> k) (issue_rows d)) k = None"
    using get_delete_row_same [of issue_id k "issue_rows d"] by (simp add: delete_row_def)
  then show ?thesis
    using assms ki
    by (simp add: delete_issue_def admin_required_def get_or_404_def delete_row_def)
qed

theorem delete_issue_keeps_equipment_witness:
  "fst (delete_issue admin_sess 1 retired_db) = Inr (Redirect ''list_issues'' (Some ''Issue deleted.''))
   \<and> issue_rows (snd (delete_issue admin_sess 1 retired_db)) = [solved_crack]
   \<and> get issue_id (issue_rows (snd (delete_issue admin_sess 1 retired_db))) 1 = None
   \<and> equipment_rows (snd (delete_issue admin_sess 1 retired_db)) = [retired_helmet]
   \<and> is_retired retired_helmet"
  using delete_issue_keeps_equipment [of admin_sess retired_db 1 solved_strap]
  by (simp add: admin_sess_def retired_db_def solved_strap_def solved_crack_def
      retired_helmet_def get_def)

subsection \<open>Resolving and reopening\<close>

text \<open>
  C9. Resolving an open issue whose equipment is assigned and toggling it again leaves the
  issue open with \<open>resolved_on\<close> cleared and the equipment active with \<open>retired_on\<close>
  cleared, but unassigned: the store is not the one the two requests started from.
\<close>

theorem double_toggle:
  assumes "is_admin sess"
    and "get issue_id (issue_rows d) k = Some i"
    and "\<not> is_resolved i"
    and "get eq_id (equipment_rows d) (equipment_id i) = Some x"
    and "employee_id x = Some e"
  shows "get issue_id (issue_rows (snd (resolve_issue env' sess k (snd (resolve_issue env sess k d))))) k
           = Some (i\<lparr>is_resolved := False, resolved_on := None\<rparr>)
       \<and> get eq_id (equipment_rows (snd (resolve_issue env' sess k (snd (resolve_issue env sess k d)))))
             (equipment_id i)
           = Some (x\<lparr>employee_id := None, is_retired := False, retired_on := None\<rparr>)
       \<and> snd (resolve_issue env' sess k (snd (resolve_issue env sess k d))) \<noteq> d"
proof -
  let ?d1 = "snd (resolve_issue env sess k d)"
  let ?d2 = "snd (resolve_issue env' sess k ?d1)"
  let ?i1 = "i\<lparr>is_resolved := True, resolved_on := Some (utcnow env 0)\<rparr>"
  let ?x1 = "x\<lparr>employee_id := None, is_retired := True, retired_on := Some (utcnow env 1)\<rparr>"
  from assms(2) have ki: "issue_id i = k" by (simp add: get_SomeD)
  from assms(4) have kx: "eq_id x = equipment_id i" by (simp add: get_SomeD)
  have i1: "get issue_id (issue_rows ?d1) k = Some ?i1"
    using assms ki kx
    by (simp add: resolve_issue_def admin_required_def get_or_404_def update_opt_def
        get_update_row_same)
  have x1: "get eq_id (equipment_rows ?d1) (equipment_id ?i1) = Some ?x1"
    using assms ki kx
    by (simp add: resolve_issue_def admin_required_def get_or_404_def update_opt_def
        get_update_row_same)
  have i2: "get issue_id (issue_rows ?d2) k = Some (i\<lparr>is_resolved := False, resolved_on := None\<rparr>)"
    using assms(1) i1 x1 ki kx
    by (simp add: resolve_issue_def [of env'] admin_required_def get_or_404_def update_opt_def
        get_update_row_same)
  have x2: "get eq_id (equipment_rows ?d2) (equipment_id i)
              = Some (x\<lparr>employee_id := None, is_retired := False, retired_on := None\<rparr>)"
    using assms(1) i1 x1 ki kx
    by (simp add: resolve_issue_def [of env'] admin_required_def get_or_404_def update_opt_def
        get_update_row_same)
  have "?d2 \<noteq> d"
  proof
    assume "?d2 = d"
    with x2 assms(4) have "x\<lparr>employee_id := None, is_retired := False, retired_on := None\<rparr> = x"
      by simp
    then have "employee_id (x\<lparr>employee_id := None, is_retired := False, retired_on := None\<rparr>)
                 = employee_id x" by simp
    with assms(5) show False by simp
  qed
  with i2 x2 show ?thesis by simp
qed

theorem double_toggle_witness:
  "get issue_id (issue_rows (snd (resolve_issue demo_env admin_sess 1
       (snd (resolve_issue demo_env admin_sess 1 demo_db))))) 1 = Some strap_broken
   \<and> get eq_id (equipment_rows (snd (resolve_issue demo_env admin_sess 1
       (snd (resolve_issue demo_env admin_sess 1 demo_db))))) 1
       = Some (helmet\<lparr>employee_id := None\<rparr>)
   \<and> snd (resolve_issue demo_env admin_sess 1
       (snd (resolve_issue demo_env admin_sess 1 demo_db))) \<noteq> demo_db
   \<and> employee_id helmet = Some 1"
  using double_toggle [of admin_sess demo_db 1 strap_broken helmet 1 demo_env demo_env]
  by (simp add: admin_sess_def demo_db_def strap_broken_def helmet_def get_def)

subsection \<open>What each handler does to the equipment table\<close>

text \<open>
  A property of equipment rows that holds of a new row and survives the four writes the
  handlers make to a row (assigning an active row, unassigning, retiring, reactivating)
  holds of every row after any request, and after seeding.
\<close>

lemma list_all_update_row:
  "list_all P rows \<Longrightarrow> P r \<Longrightarrow> list_all P (update_row pk r rows)"
  by (induction rows) (simp_all add: update_row_def)

lemma add_employee_rows:
  "equipment_rows (snd (add_employee sess m nf cf d)) = equipment_rows d"
  by (simp add: add_employee_def admin_required_def Let_def)

lemma remove_employee_rows:
  assumes "list_all P (equipment_rows d)"
    and "\<And>x. P x \<Longrightarrow> P (x\<lparr>employee_id := None\<rparr>)"
  shows "list_all P (equipment_rows (snd (remove_employee sess k d)))"
  using assms
  by (auto simp: remove_employee_def admin_required_def get_or_404_def list_all_iff
      split: option.splits)

lemma add_equipment_rows:
  assumes "list_all P (equipment_rows d)"
    and "\<And>k n e. P \<lparr>eq_id = k, eq_name = n, expiry_date = e, employee_id = None,
                      is_retired = False, retired_on = None\<rparr>"
  shows "list_all P (equipment_rows (snd (add_equipment env sess m nf er d)))"
  using assms
  by (auto simp: add_equipment_def admin_required_def Let_def split: option.splits)

lemma assign_equipment_rows:
  assumes "list_all P (equipment_rows d)"
    and "\<And>x e. P x \<Longrightarrow> \<not> is_retired x \<Longrightarrow> P (x\<lparr>employee_id := Some e\<rparr>)"
  shows "list_all P (equipment_rows (snd (assign_equipment env sess k m f d)))"
proof (cases "get eq_id (equipment_rows d) k")
  case None
  with assms(1) show ?thesis
    by (simp add: assign_equipment_def admin_required_def get_or_404_def)
next
  case (Some x)
  then have "x \<in> set (equipment_rows d)" by (simp add: get_SomeD)
  with assms(1) have "P x" by (simp add: list_all_iff)
  with assms Some show ?thesis
    by (auto simp: assign_equipment_def admin_required_def get_or_404_def
        list_all_update_row split: option.splits)
qed

lemma raise_issue_rows:
  "equipment_rows (snd (raise_issue env sess k m f d)) = equipment_rows d"
  by (simp add: raise_issue_def get_or_404_def Let_def split: option.splits)

lemma resolve_issue_rows:
  assumes "list_all P (equipment_rows d)"
    and "\<And>x t. P x \<Longrightarrow> P (x\<lparr>employee_id := None, is_retired := True, retired_on := Some t\<rparr>)"
    and "\<And>x. P x \<Longrightarrow> P (x\<lparr>is_retired := False, retired_on := None\<rparr>)"
  shows "list_all P (equipment_rows (snd (resolve_issue env sess k d)))"
proof (cases "get issue_id (issue_rows d) k")
  case None
  with assms(1) show ?thesis
    by (simp add: resolve_issue_def admin_required_def get_or_404_def)
next
  case (Some i)
  show ?thesis
  proof (cases "get eq_id (equipment_rows d) (equipment_id i)")
    case None
    with assms(1) Some show ?thesis
      by (simp add: resolve_issue_def admin_required_def get_or_404_def update_opt_def)
  next
    case (Some x)
    then have "x \<in> set (equipment_rows d)" by (simp add: get_SomeD)
    with assms(1) have "P x" by (simp add: list_all_iff)
    with assms Some \<open>get issue_id (issue_rows d) k = Some i\<close> show ?thesis
      by (simp add: resolve_issue_def admin_required_def get_or_404_def update_opt_def
          list_all_update_row)
  qed
qed

lemma delete_issue_rows:
  "equipment_rows (snd (delete_issue sess k d)) = equipment_rows d"
  by (simp add: delete_issue_def admin_required_def get_or_404_def split: option.splits)

lemma my_dashboard_db: "snd (my_dashboard env sess d) = d"
  by (simp add: my_dashboard_def login_required_def get_or_404_def Let_def
      split: option.splits sum.splits)

lemma admin_dashboard_db: "snd (admin_dashboard env sess d) = d"
  by (simp add: admin_dashboard_def admin_required_def Let_def split: sum.splits)

lemma handle_rows:
  assumes "list_all P (equipment_rows d)"
    and "\<And>k n e. P \<lparr>eq_id = k, eq_name = n, expiry_date = e, employee_id = None,
                      is_retired = False, retired_on = None\<rparr>"
    and "\<And>x e. P x \<Longrightarrow> \<not> is_retired x \<Longrightarrow> P (x\<lparr>employee_id := Some e\<rparr>)"
    and "\<And>x. P x \<Longrightarrow> P (x\<lparr>employee_id := None\<rparr>)"
    and "\<And>x t. P x \<Longrightarrow> P (x\<lparr>employee_id := None, is_retired := True, retired_on := Some t\<rparr>)"
    and "\<And>x. P x \<Longrightarrow> P (x\<lparr>is_retired := False, retired_on := None\<rparr>)"
  shows "list_all P (equipment_rows (snd (handle env sess req d)))"
proof (cases req)
  case (Add_employee m nf cf)
  with assms(1) show ?thesis by (simp add: add_employee_rows)
next
  case (Remove_employee k)
  with assms(1,4) show ?thesis by (simp add: remove_employee_rows)
next
  case (Add_equipment m nf er)
  with assms(1,2) show ?thesis by (simp add: add_equipment_rows)
next
  case (Assign_equipment k m f)
  with assms(1,3) show ?thesis by (simp add: assign_equipment_rows)
next
  case (Raise_issue k m f)
  with assms(1) show ?thesis by (simp add: raise_issue_rows)
next
  case (Resolve_issue k)
  with assms(1,5,6) show ?thesis by (simp add: resolve_issue_rows)
next
  case (Delete_issue k)
  with assms(1) show ?thesis by (simp add: delete_issue_rows)
next
  case My_dashboard
  with assms(1) show ?thesis by (simp add: my_dashboard_db)
next
  case Admin_dashboard
  with assms(1) show ?thesis by (simp add: admin_dashboard_db)
qed

lemma seed_if_empty_rows:
  assumes "list_all P (equipment_rows d)"
    and "\<And>k n e. P \<lparr>eq_id = k, eq_name = n, expiry_date = e, employee_id = None,
                      is_retired = False, retired_on = None\<rparr>"
    and "seed_if_empty t d = Inr d'"
  shows "list_all P (equipment_rows d')"
  using assms
  by (auto simp: seed_if_empty_def insert_equipment_def Let_def split: if_splits sum.splits)

lemma empty_db_invariants: "retired_iff_stamped empty_db \<and> retired_unassigned empty_db"
  by (simp add: retired_iff_stamped_def retired_unassigned_def empty_db_def)

text \<open>
  C3. \<open>is_retired\<close> holds of an equipment row exactly when its \<open>retired_on\<close> is set:
  a store in which this is so is still one after any request (adding equipment, assigning,
  the resolve toggle, deleting an issue, removing an employee and the rest) and after
  seeding. The empty store is one (\<open>empty_db_invariants\<close>).
\<close>

theorem retired_iff_stamped_invariant:
  assumes "retired_iff_stamped d"
  shows "retired_iff_stamped (snd (handle env sess req d))
       \<and> (case seed_if_empty t d of Inl err \<Rightarrow> True | Inr d' \<Rightarrow> retired_iff_stamped d')"
proof -
  have "retired_iff_stamped (snd (handle env sess req d))"
    using assms unfolding retired_iff_stamped_def by (rule handle_rows) simp_all
  moreover have "retired_iff_stamped d'" if "seed_if_empty t d = Inr d'" for d'
    using assms that unfolding retired_iff_stamped_def
    by (rule_tac seed_if_empty_rows [where d = d and t = t]) simp_all
  ultimately show ?thesis by (simp split: sum.splits)
qed

theorem retired_iff_stamped_invariant_witness:
  "retired_iff_stamped demo_db
   \<and> retired_iff_stamped (snd (handle demo_env admin_sess (Resolve_issue 1) demo_db))
   \<and> equipment_rows (snd (handle demo_env admin_sess (Resolve_issue 1) demo_db))
       = [helmet\<lparr>employee_id := None, is_retired := True, retired_on := Some 1001\<rparr>]
   \<and> (case seed_if_empty 739000 demo_db of Inl err \<Rightarrow> True | Inr d' \<Rightarrow> retired_iff_stamped d')"
  using retired_iff_stamped_invariant [of demo_db demo_env admin_sess "Resolve_issue 1" 739000]
  by (simp add: retired_iff_stamped_def demo_db_def helmet_def strap_broken_def admin_sess_def
      demo_env_def resolve_issue_def admin_required_def get_or_404_def get_def update_row_def
      update_opt_def)

text \<open>
  C10. A retired equipment row references no employee: a store in which this is so is
  still one after any request and after seeding. Retiring clears the assignment in the
  same write, assigning refuses a retired row, and no other handler sets \<open>employee_id\<close>.
\<close>

theorem retired_unassigned_invariant:
  assumes "retired_unassigned d"
  shows "retired_unassigned (snd (handle env sess req d))
       \<and> (case seed_if_empty t d of Inl err \<Rightarrow> True | Inr d' \<Rightarrow> retired_unassigned d')"
proof -
  have "retired_unassigned (snd (handle env sess req d))"
    using assms unfolding retired_unassigned_def by (rule handle_rows) simp_all
  moreover have "retired_unassigned d'" if "seed_if_empty t d = Inr d'" for d'
    using assms that unfolding retired_unassigned_def
    by (rule_tac seed_if_empty_rows [where d = d and t = t]) simp_all
  ultimately show ?thesis by (simp split: sum.splits)
qed

theorem retired_unassigned_invariant_witness:
  "retired_unassigned retired_db
   \<and> retired_unassigned
        (snd (handle demo_env admin_sess (Assign_equipment 1 POST (Some (lit ''1''))) retired_db))
   \<and> equipment_rows
        (snd (handle demo_env admin_sess (Assign_equipment 1 POST (Some (lit ''1''))) retired_db))
       = [retired_helmet]
   \<and> (case seed_if_empty 739000 retired_db of Inl err \<Rightarrow> True | Inr d' \<Rightarrow> retired_unassigned d')"
  using retired_unassigned_invariant [of retired_db demo_env admin_sess
      "Assign_equipment 1 POST (Some (lit ''1''))" 739000]
  by (simp add: retired_unassigned_def retired_db_def retired_helmet_def admin_sess_def
      assign_equipment_def admin_required_def get_or_404_def get_def)

subsection \<open>Employees\<close>

lemma find_not_None: "x \<in> set xs \<Longrightarrow> P x \<Longrightarrow> find P xs \<noteq> None"
  by (auto simp: find_None_iff)

text \<open>
  C7. Posting the add-employee form with a code that, trimmed as the handler trims it, is
  the code of an existing employee is answered with a flashed notice and a redirect back to
  the form, not with an error, and the store is left as it was: no row is added.
\<close>

theorem add_employee_duplicate_code:
  assumes "is_admin sess"
    and "e \<in> set (employee_rows d)"
    and "employee_code e = strip (or_empty code_field)"
  shows "add_employee sess POST name_field code_field d
           = (Inr (Redirect ''add_employee''
                    (Some (if strip (or_empty name_field) = [] \<or> strip (or_empty code_field) = []
                           then ''Name and Employee ID are required.''
                           else ''Employee ID already exists. Choose another.''))), d)
       \<and> length (employee_rows (snd (add_employee sess POST name_field code_field d)))
           = length (employee_rows d)"
proof -
  have "find (\<lambda>e. employee_code e = strip (or_empty code_field)) (employee_rows d) \<noteq> None"
    using assms(2,3) by (rule find_not_None)
  with assms(1) show ?thesis
    by (simp add: add_employee_def admin_required_def Let_def)
qed

theorem add_employee_duplicate_code_witness:
  "add_employee admin_sess POST (Some (lit ''Harsha Das'')) (Some (lit '' E1001 '')) demo_db
     = (Inr (Redirect ''add_employee'' (Some ''Employee ID already exists. Choose another.'')),
        demo_db)
   \<and> length (employee_rows (snd (add_employee admin_sess POST (Some (lit ''Harsha Das''))
         (Some (lit '' E1001 '')) demo_db))) = 1"
  using add_employee_duplicate_code [of admin_sess chinmoy demo_db "Some (lit '' E1001 '')"
      "Some (lit ''Harsha Das'')"]
  by (simp add: admin_sess_def demo_db_def chinmoy_def lit_def strip_def isspace_def
      or_empty_def)

text \<open>
  C8. Removing an employee (by an admin) deletes the employee row and leaves every
  equipment row that referenced the employee in the table, active and unassigned; no
  equipment row is deleted and none changes its retirement state. Such a row is active
  beforehand because retired rows are unassigned (C10).
\<close>

theorem remove_employee_unassigns:
  assumes "is_admin sess"
    and "get emp_id (employee_rows d) k = Some emp"
    and "retired_unassigned d"
    and "x \<in> set (equipment_rows d)"
    and "employee_id x = Some k"
  shows "get emp_id (employee_rows (snd (remove_employee sess k d))) k = None
       \<and> x\<lparr>employee_id := None\<rparr> \<in> set (equipment_rows (snd (remove_employee sess k d)))
       \<and> \<not> is_retired (x\<lparr>employee_id := None\<rparr>)
       \<and> map eq_id (equipment_rows (snd (remove_employee sess k d))) = map eq_id (equipment_rows d)
       \<and> map is_retired (equipment_rows (snd (remove_employee sess k d)))
           = map is_retired (equipment_rows d)
       \<and> map retired_on (equipment_rows (snd (remove_employee sess k d)))
           = map retired_on (equipment_rows d)"
proof -
  from assms(2) have ke: "emp_id emp = k" by (simp add: get_SomeD)
  from assms(3,4,5) have active: "\<not> is_retired x"
    by (auto simp: retired_unassigned_def list_all_iff)
  have gone: "get emp_id (delete_row emp_id k (employee_rows d)) k = None"
    by (rule get_delete_row_same)
  from assms ke gone active show ?thesis
    by (auto simp: remove_employee_def admin_required_def get_or_404_def comp_def
        intro!: image_eqI [where x = x])
qed

theorem remove_employee_unassigns_witness:
  "get emp_id (employee_rows (snd (remove_employee admin_sess 1 stock_db))) 1 = None
   \<and> equipment_rows (snd (remove_employee admin_sess 1 stock_db))
       = [extinguisher\<lparr>employee_id := None\<rparr>, retired_helmet, harness,
          helmet\<lparr>eq_id := 4, employee_id := None\<rparr>]
   \<and> \<not> is_retired extinguisher"
  using remove_employee_unassigns [of admin_sess stock_db 1 chinmoy extinguisher]
  by (simp add: admin_sess_def stock_db_def chinmoy_def extinguisher_def harness_def
      helmet_def retired_helmet_def get_def retired_unassigned_def remove_employee_def
      admin_required_def get_or_404_def delete_row_def)

subsection \<open>Assigning equipment\<close>

text \<open>
  What the handler checks: the equipment row exists and is not retired. A retired row is
  refused and the store is left as it was.
\<close>

lemma assign_equipment_retired:
  assumes "is_admin sess"
    and "get eq_id (equipment_rows d) k = Some x"
    and "is_retired x"
  shows "assign_equipment env sess k m employee_id_field d
           = (Inr (Redirect ''list_equipment''
                    (Some ''This equipment is retired and cannot be assigned.'')), d)"
  using assms by (simp add: assign_equipment_def admin_required_def get_or_404_def)

lemma assign_equipment_missing:
  assumes "is_admin sess"
    and "get eq_id (equipment_rows d) k = None"
  shows "assign_equipment env sess k m employee_id_field d = (Inl NotFound, d)"
  using assms by (simp add: assign_equipment_def admin_required_def get_or_404_def)

text \<open>
  C5. The handler does not look the posted employee id up: on the example store, posting
  the id 999, which no employee has, assigns the helmet to it and answers
  \<^verbatim>\<open>Assigned equipment.\<close>
\<close>

theorem assign_equipment_unknown_employee:
  "assign_equipment demo_env admin_sess 1 POST (Some (lit ''999'')) demo_db
     = (Inr (Redirect ''list_equipment'' (Some ''Assigned equipment.'')),
        demo_db\<lparr>equipment_rows := [helmet\<lparr>employee_id := Some 999\<rparr>]\<rparr>)
   \<and> get emp_id (employee_rows demo_db) 999 = None"
  by (simp add: assign_equipment_def admin_required_def get_or_404_def get_def update_row_def
      demo_env_def admin_sess_def demo_db_def helmet_def chinmoy_def lit_def)

subsection \<open>Near-expiry classification\<close>

lemma near_cutoff_in_range:
  assumes "\<bar>NEAR_EXPIRY_DAYS env\<bar> \<le> 999999999"
    and "MINORDINAL \<le> today env + NEAR_EXPIRY_DAYS env"
    and "today env + NEAR_EXPIRY_DAYS env \<le> MAXORDINAL"
  shows "near_cutoff env = Inr (today env + NEAR_EXPIRY_DAYS env)"
  using assms by (simp add: near_cutoff_def timedelta_def date_add_def)

lemma status_near_iff: "(status c e = ''near'') = (expiry_date e \<le> c)"
  by (simp add: status_def)

lemma status_ok_iff: "(status c e = ''ok'') = (\<not> expiry_date e \<le> c)"
  by (simp add: status_def)

lemma admin_dashboard_page:
  assumes "is_admin sess" and "near_cutoff env = Inr c"
  shows "\<exists>rows n_emp n_eq n_open nr.
           fst (admin_dashboard env sess d)
             = Inr (Render (Admin_dashboard_page rows n_emp n_eq n_open nr c))
         \<and> set rows = {(e, st). e \<in> set (equipment_rows d) \<and> \<not> is_retired e \<and> st = status c e}
         \<and> set nr = {e \<in> set (equipment_rows d). \<not> is_retired e \<and> expiry_date e \<le> c}"
  using assms
  by (auto simp: admin_dashboard_def admin_required_def Let_def near_def)

lemma my_dashboard_page:
  assumes "session_employee_id sess = Some k" and "k \<noteq> 0"
    and "get emp_id (employee_rows d) k = Some emp"
    and "near_cutoff env = Inr c"
  shows "\<exists>rows nr.
           fst (my_dashboard env sess d) = Inr (Render (My_dashboard_page rows nr c))
         \<and> set rows = {(e, st). e \<in> set (equipment_rows d) \<and> employee_id e = Some k
                          \<and> \<not> is_retired e \<and> st = status c e}
         \<and> set nr = {e \<in> set (equipment_rows d). employee_id e = Some k
                          \<and> \<not> is_retired e \<and> expiry_date e \<le> c}"
proof -
  from assms(3) have "emp_id emp = k" by (simp add: get_SomeD)
  with assms show ?thesis
    by (auto simp: my_dashboard_def login_required_def logged_in_def get_or_404_def Let_def
        near_def)
qed

text \<open>
  C6. When today plus the threshold is a date, the status of an equipment row is a
  function of today, the threshold and the row's expiry date alone: \<^verbatim>\<open>near\<close> exactly when
  the expiry date is at most today plus the threshold, and \<^verbatim>\<open>ok\<close> otherwise. An expiry
  date of today plus the threshold is \<^verbatim>\<open>near\<close>, one day later is \<^verbatim>\<open>ok\<close>. Both
  dashboards list exactly the active rows (the employee's own, on the employee dashboard),
  each with this status, and count as near expiry exactly those at or before the cutoff.
\<close>

theorem near_expiry_classification:
  assumes "\<bar>NEAR_EXPIRY_DAYS env\<bar> \<le> 999999999"
    and "MINORDINAL \<le> today env + NEAR_EXPIRY_DAYS env"
    and "today env + NEAR_EXPIRY_DAYS env \<le> MAXORDINAL"
    and "is_admin sess"
    and "session_employee_id sess' = Some k" and "k \<noteq> 0"
    and "get emp_id (employee_rows d) k = Some emp"
  shows "near_cutoff env = Inr (today env + NEAR_EXPIRY_DAYS env)
       \<and> (status (today env + NEAR_EXPIRY_DAYS env) e = ''near'')
           = (expiry_date e \<le> today env + NEAR_EXPIRY_DAYS env)
       \<and> (status (today env + NEAR_EXPIRY_DAYS env) e = ''ok'')
           = (\<not> expiry_date e \<le> today env + NEAR_EXPIRY_DAYS env)
       \<and> status (today env + NEAR_EXPIRY_DAYS env)
            (e\<lparr>expiry_date := today env + NEAR_EXPIRY_DAYS env\<rparr>) = ''near''
       \<and> status (today env + NEAR_EXPIRY_DAYS env)
            (e\<lparr>expiry_date := today env + NEAR_EXPIRY_DAYS env + 1\<rparr>) = ''ok''
       \<and> (\<exists>rows n_emp n_eq n_open nr.
             fst (admin_dashboard env sess d)
               = Inr (Render (Admin_dashboard_page rows n_emp n_eq n_open nr
                               (today env + NEAR_EXPIRY_DAYS env)))
           \<and> set rows = {(e, st). e \<in> set (equipment_rows d) \<and> \<not> is_retired e
                            \<and> st = (if expiry_date e \<le> today env + NEAR_EXPIRY_DAYS env
                                    then ''near'' else ''ok'')}
           \<and> set nr = {e \<in> set (equipment_rows d). \<not> is_retired e
                            \<and> expiry_date e \<le> today env + NEAR_EXPIRY_DAYS env})
       \<and> (\<exists>rows nr.
             fst (my_dashboard env sess' d)
               = Inr (Render (My_dashboard_page rows nr (today env + NEAR_EXPIRY_DAYS env)))
           \<and> set rows = {(e, st). e \<in> set (equipment_rows d) \<and> employee_id e = Some k
                            \<and> \<not> is_retired e
                            \<and> st = (if expiry_date e \<le> today env + NEAR_EXPIRY_DAYS env
                                    then ''near'' else ''ok'')}
           \<and> set nr = {e \<in> set (equipment_rows d). employee_id e = Some k \<and> \<not> is_retired e
                            \<and> expiry_date e \<le> today env + NEAR_EXPIRY_DAYS env})"
proof -
  let ?c = "today env + NEAR_EXPIRY_DAYS env"
  have c: "near_cutoff env = Inr ?c"
    using assms(1,2,3) by (rule near_cutoff_in_range)
  have st: "status ?c = (\<lambda>e. if expiry_date e \<le> ?c then ''near'' else ''ok'')"
    by (rule ext) (simp add: status_def)
  have a: "\<exists>rows n_emp n_eq n_open nr.
             fst (admin_dashboard env sess d)
               = Inr (Render (Admin_dashboard_page rows n_emp n_eq n_open nr ?c))
           \<and> set rows = {(e, st). e \<in> set (equipment_rows d) \<and> \<not> is_retired e
                            \<and> st = (if expiry_date e \<le> ?c then ''near'' else ''ok'')}
           \<and> set nr = {e \<in> set (equipment_rows d). \<not> is_retired e \<and> expiry_date e \<le> ?c}"
    using admin_dashboard_page [OF assms(4) c, of d] unfolding st .
  have m: "\<exists>rows nr.
             fst (my_dashboard env sess' d) = Inr (Render (My_dashboard_page rows nr ?c))
           \<and> set rows = {(e, st). e \<in> set (equipment_rows d) \<and> employee_id e = Some k
                            \<and> \<not> is_retired e
                            \<and> st = (if expiry_date e \<le> ?c then ''near'' else ''ok'')}
           \<and> set nr = {e \<in> set (equipment_rows d). employee_id e = Some k \<and> \<not> is_retired e
                            \<and> expiry_date e \<le> ?c}"
    using my_dashboard_page [OF assms(5,6,7) c] unfolding st .
  have b1: "status ?c (e\<lparr>expiry_date := ?c\<rparr>) = ''near''" by (simp add: status_def)
  have b2: "status ?c (e\<lparr>expiry_date := ?c + 1\<rparr>) = ''ok''" by (simp add: status_def)
  from c a m b1 b2 status_near_iff [of ?c e] status_ok_iff [of ?c e] show ?thesis
    by (intro conjI)
qed

theorem near_expiry_classification_witness:
  "near_cutoff demo_env = Inr 739030
   \<and> status 739030 harness = ''near''
   \<and> expiry_date harness = today demo_env + NEAR_EXPIRY_DAYS demo_env
   \<and> status 739030 extinguisher = ''ok''
   \<and> expiry_date extinguisher = today demo_env + NEAR_EXPIRY_DAYS demo_env + 1
   \<and> fst (admin_dashboard demo_env admin_sess stock_db)
       = Inr (Render (Admin_dashboard_page
           [(helmet\<lparr>eq_id := 4\<rparr>, ''near''), (harness, ''near''), (extinguisher, ''ok'')]
           1 3 0 [helmet\<lparr>eq_id := 4\<rparr>, harness] 739030))
   \<and> fst (my_dashboard demo_env chinmoy_sess stock_db)
       = Inr (Render (My_dashboard_page
           [(helmet\<lparr>eq_id := 4\<rparr>, ''near''), (extinguisher, ''ok'')]
           [helmet\<lparr>eq_id := 4\<rparr>] 739030))"
  using near_expiry_classification [of demo_env admin_sess chinmoy_sess 1 stock_db chinmoy harness]
  by (simp add: demo_env_def admin_sess_def chinmoy_sess_def stock_db_def chinmoy_def
      harness_def extinguisher_def helmet_def retired_helmet_def MINORDINAL_def MAXORDINAL_def
      near_cutoff_def timedelta_def date_add_def status_def near_def get_def
      admin_dashboard_def my_dashboard_def admin_required_def login_required_def logged_in_def
      get_or_404_def)

end
